theory Spec2Isabelle
  imports Main
begin

section \<open>The useComDOM hook (src/lib/infrastructure/hooks/useComDOM.ts)\<close>

text \<open>
  The hook is the Streaming Consumer Controller of the specification. Its operations are
  closures over React state (\<open>comDOMStatus\<close>, \<open>errors\<close>, \<open>pollInterval\<close>, \<open>status\<close>),
  two refs (\<open>dataSink\<close>, \<open>errorId\<close>), the worker wrapper and the query client.
  Each call of an operation is embedded as one step from the hook's state to a result and
  the state after it: every \<open>setX(v)\<close> is a field update, applied in program order. A call
  is not split at its \<open>await\<close> points: the step describes what the call itself does, not
  what other calls do while it waits. The refs \<open>dataSink\<close> and \<open>errorId\<close> are shared by
  all closures and always hold their current value. The state variables \<open>comDOMStatus\<close> and \<open>status\<close>, which \<open>queryFn\<close> and \<open>pause\<close> only test, are
  read from the state the call is applied to. The list \<open>errors\<close> is different: \<open>reportError\<close>
  writes it back with \<open>setErrors([...errors, error])\<close>, where \<open>errors\<close> is the constant of the
  render the called closure belongs to, not the list at the time of the write. That list
  is therefore part of what a closure sees (\<open>render_errors\<close> below), and it may be older
  than the list in the state: a function object kept from an earlier render, or a second
  failure reported from the same render, writes the older list back.
  Logging (\<open>_log\<close>) has no effect on the state and is left out. The counter
  \<open>errorId.current\<close> is a JavaScript number that only ever grows by 1 from 0; it is a
  natural number here.
\<close>

subsection \<open>Data\<close>

text \<open>
  JavaScript arrays are objects: \<open>dataSink.current = initialData\<close> copies a reference and
  \<open>dataSink.current.push(...)\<close> changes the array in place. Arrays therefore live in a
  store, and \<open>initialData\<close> and \<open>dataSink.current\<close> are addresses into it.
\<close>

type_synonym addr = nat

text \<open>
  Modelled from the spec: the \<open>ComDOMStatus\<close> enum of \<open>web-worker/comdom-wrapper\<close>, which
  the hook imports; the hook itself names \<open>UNKNOWN\<close>, \<open>RUNNING\<close> and \<open>DONE\<close>, the
  specification lists \<open>Unknown, Idle, Running, Done, Error\<close>.
\<close>

datatype ComDOMStatus =
  ComDOM_UNKNOWN | ComDOM_IDLE | ComDOM_RUNNING | ComDOM_DONE | ComDOM_ERROR

datatype UseComDOMStatus = STOPPED | PAUSED | RUNNING | DONE | ERROR

text \<open>A poll interval is a JavaScript number of milliseconds, or \<open>Infinity\<close>.\<close>

datatype interval = Millis int | Infinity

text \<open>
  What a rejected wrapper call throws is taken to be an \<open>Error\<close> object: a message and
  an optional cause. The fields of an error record hold strings, \<open>undefined\<close>, or (in
  \<open>queryFn\<close> and \<open>comDOMStatusQueryFn\<close>, which pass the caught value itself as the message)
  such an object.
\<close>

datatype js_error = JsError (err_message: string) (err_cause: "string option")

datatype js_value = JsUndefined | JsString string | JsObject js_error

record ComDOMError =
  id' :: nat
  message :: js_value
  cause :: js_value

text \<open>
  \<open>BatchResponse\<close> of the wrapper module, by the two fields the hook reads:
  \<open>batchResponse.data\<close> and \<open>batchResponse.next\<close> (field \<open>next'\<close>; the specification's \<open>more\<close>).
\<close>

record 'a BatchResponse =
  data :: "'a list"
  next' :: bool

text \<open>
  The wrapper (\<open>IComDOMWrapper\<close>) is not part of the hook: its four methods are
  parameters, acting on a worker state \<open>'w\<close> that only they can change. A method returns
  its value (\<open>Inr\<close>) or throws (\<open>Inl\<close>). \<open>next\<close> resolves to a batch or to \<open>null\<close>.
\<close>

record ('a, 'w) IComDOMWrapper =
  wrapper_start :: "'w \<Rightarrow> (js_error + bool) \<times> 'w"
  wrapper_getComDOMStatus :: "'w \<Rightarrow> (js_error + ComDOMStatus) \<times> 'w"
  wrapper_next :: "'w \<Rightarrow> (js_error + 'a BatchResponse option) \<times> 'w"
  wrapper_destroy :: "'w \<Rightarrow> (js_error + bool) \<times> 'w"

text \<open>
  The query client of the caching layer, by the two methods the hook calls, acting on a
  cache \<open>'q\<close>. \<open>setQueriesData\<close> is called inside a \<open>try\<close> block, so it may throw.
\<close>

record 'q QueryClient =
  invalidateQueries :: "string list \<Rightarrow> 'q \<Rightarrow> 'q"
  setQueriesData :: "string list \<Rightarrow> addr \<Rightarrow> 'q \<Rightarrow> (js_error + unit) \<times> 'q"

text \<open>
  What the closures of one render see: the hook's arguments and collaborators, and
  \<open>render_errors\<close>, the value of the state variable \<open>errors\<close> in that render. \<open>hostname\<close>
  and \<open>pathname\<close> are those of \<open>requestURL\<close>.
\<close>

record ('a, 'w, 'q) props =
  hostname :: string
  pathname :: string
  initialData :: addr
  fetchOnCreate :: bool
  restInterval :: interval
  fetchInterval :: interval
  comDOMWrapper :: "('a, 'w) IComDOMWrapper"
  queryClient :: "'q QueryClient"
  render_errors :: "ComDOMError list"

record ('a, 'w, 'q) hook =
  heap :: "addr \<Rightarrow> 'a list"
  dataSink :: addr
  comDOMStatus :: ComDOMStatus
  errors :: "ComDOMError list"
  errorId :: nat
  pollInterval :: interval
  status :: UseComDOMStatus
  worker :: 'w
  queryCache :: 'q

definition queryKey :: "('a, 'w, 'q) props \<Rightarrow> string list" where
  "queryKey p = [hostname p, pathname p]"

text \<open>The records the Sink holds: the array \<open>dataSink.current\<close> points to.\<close>

definition sink :: "('a, 'w, 'q) hook \<Rightarrow> 'a list" where
  "sink s = heap s (dataSink s)"

text \<open>
  The state after the first render, over a given store, worker and cache. With
  \<open>fetchOnCreate\<close> the effect hook then calls \<open>start()\<close>, which is an ordinary call of
  \<open>start\<close> below.
\<close>

definition useComDOM :: "('a, 'w, 'q) props \<Rightarrow> (addr \<Rightarrow> 'a list) \<Rightarrow> 'w \<Rightarrow> 'q \<Rightarrow> ('a, 'w, 'q) hook" where
  "useComDOM p h w q =
     \<lparr>heap = h, dataSink = initialData p, comDOMStatus = ComDOM_UNKNOWN, errors = [],
      errorId = 0,
      pollInterval = (if fetchOnCreate p then fetchInterval p else Infinity),
      status = STOPPED, worker = w, queryCache = q\<rparr>"

subsection \<open>Operations\<close>

definition resolveError :: "nat \<Rightarrow> ('a, 'w, 'q) hook \<Rightarrow> ('a, 'w, 'q) hook" where
  "resolveError i s = s\<lparr>errors := filter (\<lambda>error. id' error \<noteq> i) (errors s)\<rparr>"

definition resolveAllErrors :: "('a, 'w, 'q) hook \<Rightarrow> ('a, 'w, 'q) hook" where
  "resolveAllErrors s = s\<lparr>errors := []\<rparr>"

text \<open>
  \<open>resolveError\<close> uses the updater form \<open>setErrors(errors => ...)\<close>, which works on the
  current list. \<open>reportError\<close> does not: it advances the ref \<open>errorId\<close> and sets the list
  to the render's \<open>errors\<close> followed by the new record.
\<close>

definition reportError ::
  "('a, 'w, 'q) props \<Rightarrow> js_value \<Rightarrow> js_value \<Rightarrow> ('a, 'w, 'q) hook \<Rightarrow> ('a, 'w, 'q) hook" where
  "reportError p m c s =
     (let i = errorId s + 1
      in s\<lparr>errorId := i,
           errors := render_errors p @ [\<lparr>id' = i, message = m, cause = c\<rparr>]\<rparr>)"

text \<open>\<open>comDOMStatusQueryFn\<close> returns the status, or \<open>undefined\<close> (\<open>None\<close>) after a failure.\<close>

definition comDOMStatusQueryFn ::
  "('a, 'w, 'q) props \<Rightarrow> ('a, 'w, 'q) hook \<Rightarrow> ComDOMStatus option \<times> ('a, 'w, 'q) hook" where
  "comDOMStatusQueryFn p s =
     (case wrapper_getComDOMStatus (comDOMWrapper p) (worker s) of
        (Inr st, w) \<Rightarrow> (Some st, s\<lparr>worker := w, comDOMStatus := st\<rparr>)
      | (Inl error, w) \<Rightarrow>
          (None, reportError p (JsObject error) (JsString ''Error fetching ComDOM status'')
                   (s\<lparr>worker := w\<rparr>)))"

text \<open>
  The poll step. It rejects (\<open>Inl\<close>) or resolves to the sink array (\<open>Inr\<close>). The
  \<open>Promise.reject\<close> of the finished branch is returned, not awaited, so the \<open>catch\<close> block
  does not see it.
\<close>

definition queryFn_finished ::
  "('a, 'w, 'q) props \<Rightarrow> ('a, 'w, 'q) hook \<Rightarrow> (js_value + addr) \<times> ('a, 'w, 'q) hook" where
  "queryFn_finished p s =
     (Inl (JsString ''ComDOM has finished fetching all data''),
      s\<lparr>pollInterval := restInterval p, status := DONE\<rparr>)"

definition queryFn ::
  "('a, 'w, 'q) props \<Rightarrow> ('a, 'w, 'q) hook \<Rightarrow> (js_value + addr) \<times> ('a, 'w, 'q) hook" where
  "queryFn p s =
     (if comDOMStatus s \<noteq> ComDOM_RUNNING \<and> comDOMStatus s \<noteq> ComDOM_DONE
      then (Inl (JsString ''ComDOM Web Worker has not been created or it is not running. The query will not fetch any data''), s)
      else
        let s1 = s\<lparr>status := RUNNING\<rparr>
        in case wrapper_next (comDOMWrapper p) (worker s1) of
             (Inl error, w) \<Rightarrow>
               (Inl (JsObject error),
                (reportError p (JsObject error) (JsString ''Error fetching data from background thread'')
                   (s1\<lparr>worker := w\<rparr>))\<lparr>status := ERROR\<rparr>)
           | (Inr None, w) \<Rightarrow> queryFn_finished p (s1\<lparr>worker := w\<rparr>)
           | (Inr (Some batchResponse), w) \<Rightarrow>
               if \<not> next' batchResponse then queryFn_finished p (s1\<lparr>worker := w\<rparr>)
               else
                 (Inr (dataSink s1),
                  s1\<lparr>worker := w,
                     heap := (heap s1)(dataSink s1 := heap s1 (dataSink s1) @ data batchResponse)\<rparr>))"

text \<open>
  The \<open>catch\<close> block of \<open>start\<close>: \<open>reportError(error.message, error.cause)\<close>, then
  \<open>false\<close>.
\<close>

definition start_catch ::
  "('a, 'w, 'q) props \<Rightarrow> js_error \<Rightarrow> ('a, 'w, 'q) hook \<Rightarrow> bool \<times> ('a, 'w, 'q) hook" where
  "start_catch p error s =
     (False,
      reportError p (JsString (err_message error))
        (case err_cause error of None \<Rightarrow> JsUndefined | Some c \<Rightarrow> JsString c) s)"

text \<open>\<open>start\<close> takes \<open>streamURL\<close> (\<open>None\<close> is the default \<open>null\<close>).\<close>

definition start ::
  "('a, 'w, 'q) props \<Rightarrow> string option \<Rightarrow> ('a, 'w, 'q) hook \<Rightarrow> bool \<times> ('a, 'w, 'q) hook" where
  "start p streamURL s =
     (let s1 = s\<lparr>dataSink := initialData p\<rparr>
      in case wrapper_start (comDOMWrapper p) (worker s1) of
           (Inl error, w) \<Rightarrow> start_catch p error (s1\<lparr>worker := w\<rparr>)
         | (Inr ok, w) \<Rightarrow>
             if \<not> ok then start_catch p (JsError ''Error starting ComDOM'' None) (s1\<lparr>worker := w\<rparr>)
             else
               let s2 = s1\<lparr>worker := w, pollInterval := fetchInterval p\<rparr>
               in (case wrapper_getComDOMStatus (comDOMWrapper p) (worker s2) of
                     (Inl error, w') \<Rightarrow> start_catch p error (s2\<lparr>worker := w'\<rparr>)
                   | (Inr workerStatus, w') \<Rightarrow>
                       if workerStatus = ComDOM_UNKNOWN
                       then start_catch p (JsError ''Unknown ComDOM Web Worker status'' None)
                              (s2\<lparr>worker := w'\<rparr>)
                       else (True, s2\<lparr>worker := w', comDOMStatus := workerStatus\<rparr>)))"

text \<open>
  \<open>stop\<close> calls \<open>destroy\<close> outside any \<open>try\<close> block: what \<open>destroy\<close> throws leaves \<open>stop\<close>
  (\<open>Inl\<close>) before anything else runs.
\<close>

definition stop ::
  "('a, 'w, 'q) props \<Rightarrow> ('a, 'w, 'q) hook \<Rightarrow> (js_error + bool) \<times> ('a, 'w, 'q) hook" where
  "stop p s =
     (case wrapper_destroy (comDOMWrapper p) (worker s) of
        (Inl error, w) \<Rightarrow> (Inl error, s\<lparr>worker := w\<rparr>)
      | (Inr success, w) \<Rightarrow>
          let s1 = s\<lparr>worker := w\<rparr>;
              s2 = (if success then s1\<lparr>status := STOPPED, pollInterval := Infinity\<rparr>
                    else (reportError p (JsString ''Error stopping ComDOM'')
                            (JsString ''Error Destroying ComDOM'') s1)\<lparr>status := ERROR\<rparr>)
          in (Inr success,
              s2\<lparr>queryCache :=
                    invalidateQueries (queryClient p) (queryKey p @ [''comdom-status''])
                      (queryCache s2)\<rparr>))"

definition pause :: "('a, 'w, 'q) hook \<Rightarrow> bool \<times> ('a, 'w, 'q) hook" where
  "pause s =
     (let s1 = s\<lparr>pollInterval := Infinity\<rparr>
      in if status s \<noteq> RUNNING then (False, s1) else (True, s1\<lparr>status := PAUSED\<rparr>))"

definition resume :: "('a, 'w, 'q) props \<Rightarrow> ('a, 'w, 'q) hook \<Rightarrow> bool \<times> ('a, 'w, 'q) hook" where
  "resume p s = (True, s\<lparr>status := RUNNING, pollInterval := fetchInterval p\<rparr>)"

definition clean :: "('a, 'w, 'q) props \<Rightarrow> ('a, 'w, 'q) hook \<Rightarrow> bool \<times> ('a, 'w, 'q) hook" where
  "clean p s =
     (case setQueriesData (queryClient p) (queryKey p) (initialData p) (queryCache s) of
        (Inl error, q) \<Rightarrow> (False, s\<lparr>queryCache := q\<rparr>)
      | (Inr u, q) \<Rightarrow> (True, s\<lparr>queryCache := q, dataSink := initialData p\<rparr>))"

subsection \<open>Concrete collaborators\<close>

text \<open>
  Collaborators for running the hook on examples. The worker state of the example
  wrappers counts the batches handed out; the example query client keeps a log of the
  calls it received.
\<close>

datatype cache_call = InvalidateQueries "string list" | SetQueriesData "string list" addr

definition loggingClient :: "cache_call list QueryClient" where
  "loggingClient =
     \<lparr>invalidateQueries = (\<lambda>k q. q @ [InvalidateQueries k]),
      setQueriesData = (\<lambda>k a q. (Inr (), q @ [SetQueriesData k a]))\<rparr>"

text \<open>A worker that starts, reports \<open>RUNNING\<close>, and hands out the batches [0], [1], ...\<close>

definition streamingWrapper :: "(nat, nat) IComDOMWrapper" where
  "streamingWrapper =
     \<lparr>wrapper_start = (\<lambda>w. (Inr True, 0)),
      wrapper_getComDOMStatus = (\<lambda>w. (Inr ComDOM_RUNNING, w)),
      wrapper_next = (\<lambda>w. (Inr (Some \<lparr>data = [w], next' = True\<rparr>), Suc w)),
      wrapper_destroy = (\<lambda>w. (Inr True, 0))\<rparr>"

text \<open>A worker whose stream has ended: \<open>next\<close> gives an empty batch with \<open>next = false\<close>.\<close>

definition drainedWrapper :: "(nat, nat) IComDOMWrapper" where
  "drainedWrapper =
     \<lparr>wrapper_start = (\<lambda>w. (Inr True, 0)),
      wrapper_getComDOMStatus = (\<lambda>w. (Inr ComDOM_DONE, w)),
      wrapper_next = (\<lambda>w. (Inr (Some \<lparr>data = [], next' = False\<rparr>), w)),
      wrapper_destroy = (\<lambda>w. (Inr True, 0))\<rparr>"

text \<open>
  A worker behind an unreachable URL: \<open>start\<close>, \<open>getComDOMStatus\<close> and \<open>next\<close> reject,
  \<open>destroy\<close> reports failure by returning \<open>false\<close>.
\<close>

definition unreachableWrapper :: "(nat, nat) IComDOMWrapper" where
  "unreachableWrapper =
     \<lparr>wrapper_start = (\<lambda>w. (Inl (JsError ''Failed to fetch'' None), w)),
      wrapper_getComDOMStatus = (\<lambda>w. (Inl (JsError ''Worker not responding'' None), w)),
      wrapper_next = (\<lambda>w. (Inl (JsError ''Worker not responding'' None), w)),
      wrapper_destroy = (\<lambda>w. (Inr False, w))\<rparr>"

text \<open>A worker whose \<open>destroy\<close> throws.\<close>

definition crashedWrapper :: "(nat, nat) IComDOMWrapper" where
  "crashedWrapper =
     \<lparr>wrapper_start = (\<lambda>w. (Inr True, 0)),
      wrapper_getComDOMStatus = (\<lambda>w. (Inr ComDOM_RUNNING, w)),
      wrapper_next = (\<lambda>w. (Inr None, w)),
      wrapper_destroy = (\<lambda>w. (Inl (JsError ''Worker already terminated'' None), w))\<rparr>"

text \<open>
  The hook called as \<open>useComDOM(url, initialData)\<close> with the default intervals
  (\<open>restInterval = Infinity\<close>, \<open>fetchInterval = 200\<close>), \<open>initialData\<close> being the array at
  address 0, which is empty in \<open>emptyStore\<close>. These are the closures of the first render,
  in which \<open>errors\<close> is the empty list.
\<close>

definition exampleProps ::
  "(nat, nat) IComDOMWrapper \<Rightarrow> cache_call list QueryClient \<Rightarrow> (nat, nat, cache_call list) props" where
  "exampleProps W Q =
     \<lparr>hostname = ''localhost'', pathname = ''/api/stream'', initialData = 0,
      fetchOnCreate = False, restInterval = Infinity, fetchInterval = Millis 200,
      comDOMWrapper = W, queryClient = Q, render_errors = []\<rparr>"

definition emptyStore :: "addr \<Rightarrow> nat list" where
  "emptyStore = (\<lambda>a. [])"

definition exampleHook ::
  "(nat, nat) IComDOMWrapper \<Rightarrow> cache_call list QueryClient \<Rightarrow> (nat, nat, cache_call list) hook" where
  "exampleHook W Q = useComDOM (exampleProps W Q) emptyStore 0 []"

text \<open>The example hook after \<open>start()\<close> has been called once.\<close>

definition startedHook ::
  "(nat, nat) IComDOMWrapper \<Rightarrow> cache_call list QueryClient \<Rightarrow> (nat, nat, cache_call list) hook" where
  "startedHook W Q = snd (start (exampleProps W Q) None (exampleHook W Q))"

section \<open>Properties\<close>

subsection \<open>Auxiliary facts\<close>

lemmas example_defs =
  exampleHook_def exampleProps_def useComDOM_def emptyStore_def startedHook_def
  streamingWrapper_def drainedWrapper_def unreachableWrapper_def crashedWrapper_def
  loggingClient_def

lemma startedHook_streaming:
  "startedHook streamingWrapper loggingClient =
     \<lparr>heap = emptyStore, dataSink = 0, comDOMStatus = ComDOM_RUNNING, errors = [],
      errorId = 0, pollInterval = Millis 200, status = STOPPED, worker = 0, queryCache = []\<rparr>"
  by (simp add: example_defs start_def)

lemma startedHook_drained:
  "startedHook drainedWrapper loggingClient =
     \<lparr>heap = emptyStore, dataSink = 0, comDOMStatus = ComDOM_DONE, errors = [],
      errorId = 0, pollInterval = Millis 200, status = STOPPED, worker = 0, queryCache = []\<rparr>"
  by (simp add: example_defs start_def)

lemma startedHook_unreachable:
  "startedHook unreachableWrapper loggingClient =
     \<lparr>heap = emptyStore, dataSink = 0, comDOMStatus = ComDOM_UNKNOWN,
      errors = [\<lparr>id' = 1, message = JsString ''Failed to fetch'', cause = JsUndefined\<rparr>],
      errorId = 1, pollInterval = Infinity, status = STOPPED, worker = 0, queryCache = []\<rparr>"
  by (simp add: example_defs start_def start_catch_def reportError_def)

text \<open>No operation lowers \<open>errorId\<close>: an id issued once is never issued again.\<close>

lemma errorId_start: "errorId s \<le> errorId (snd (start p u s))"
  by (auto simp: start_def Let_def start_catch_def reportError_def split: prod.splits sum.splits)

lemma errorId_stop: "errorId s \<le> errorId (snd (stop p s))"
  by (auto simp: stop_def Let_def reportError_def split: prod.splits sum.splits)

lemma errorId_queryFn: "errorId s \<le> errorId (snd (queryFn p s))"
  by (auto simp: queryFn_def queryFn_finished_def Let_def reportError_def
      split: prod.splits sum.splits option.splits)

lemma errorId_comDOMStatusQueryFn: "errorId s \<le> errorId (snd (comDOMStatusQueryFn p s))"
  by (auto simp: comDOMStatusQueryFn_def reportError_def Let_def split: prod.splits sum.splits)

lemma errorId_never_decreases:
  "errorId s \<le> errorId (snd (start p u s))
   \<and> errorId s \<le> errorId (snd (stop p s))
   \<and> errorId s \<le> errorId (snd (pause s))
   \<and> errorId s \<le> errorId (snd (resume p s))
   \<and> errorId s \<le> errorId (snd (clean p s))
   \<and> errorId s \<le> errorId (resolveError i s)
   \<and> errorId s \<le> errorId (resolveAllErrors s)
   \<and> errorId s \<le> errorId (snd (queryFn p s))
   \<and> errorId s \<le> errorId (snd (comDOMStatusQueryFn p s))"
  by (simp add: errorId_start errorId_stop errorId_queryFn errorId_comDOMStatusQueryFn
      clean_def pause_def resume_def resolveError_def resolveAllErrors_def Let_def
      split: prod.splits sum.splits)

lemma queryFn_next_returns:
  assumes "comDOMStatus s = ComDOM_RUNNING \<or> comDOMStatus s = ComDOM_DONE"
    and "wrapper_next (comDOMWrapper p) (worker s) = (Inr r, w)"
  shows "queryFn p s =
     (case r of
        None \<Rightarrow> queryFn_finished p (s\<lparr>status := RUNNING, worker := w\<rparr>)
      | Some b \<Rightarrow>
          if \<not> next' b then queryFn_finished p (s\<lparr>status := RUNNING, worker := w\<rparr>)
          else (Inr (dataSink s),
                s\<lparr>status := RUNNING, worker := w,
                  heap := (heap s)(dataSink s := heap s (dataSink s) @ data b)\<rparr>))"
  using assms by (auto simp: queryFn_def Let_def split: option.splits)





lemma stop_throws:
  "wrapper_destroy (comDOMWrapper p) (worker s) = (Inl e, w) \<Longrightarrow>
     stop p s = (Inl e, s\<lparr>worker := w\<rparr>)"
  by (simp add: stop_def)

lemma clean_succeeds:
  "setQueriesData (queryClient p) (queryKey p) (initialData p) (queryCache s) = (Inr u, q) \<Longrightarrow>
     clean p s = (True, s\<lparr>queryCache := q, dataSink := initialData p\<rparr>)"
  by (simp add: clean_def)

lemma clean_throws:
  "setQueriesData (queryClient p) (queryKey p) (initialData p) (queryCache s) = (Inl e, q) \<Longrightarrow>
     clean p s = (False, s\<lparr>queryCache := q\<rparr>)"
  by (simp add: clean_def)

lemma clean_frame:
  "status (snd (clean p s)) = status s
   \<and> comDOMStatus (snd (clean p s)) = comDOMStatus s
   \<and> pollInterval (snd (clean p s)) = pollInterval s
   \<and> errors (snd (clean p s)) = errors s
   \<and> errorId (snd (clean p s)) = errorId s
   \<and> worker (snd (clean p s)) = worker s
   \<and> heap (snd (clean p s)) = heap s"
  by (simp add: clean_def split: prod.splits sum.splits)

text \<open>
  Only \<open>start\<close> and \<open>clean\<close> assign \<open>dataSink.current\<close>; under every other operation the
  Sink stays the same array and its content can only grow at the end.
\<close>

lemma dataSink_kept:
  "dataSink (snd (stop p s)) = dataSink s
   \<and> dataSink (snd (pause s)) = dataSink s
   \<and> dataSink (snd (resume p s)) = dataSink s
   \<and> dataSink (resolveError i s) = dataSink s
   \<and> dataSink (resolveAllErrors s) = dataSink s
   \<and> dataSink (snd (comDOMStatusQueryFn p s)) = dataSink s
   \<and> dataSink (snd (queryFn p s)) = dataSink s"
  by (simp add: stop_def pause_def resume_def resolveError_def resolveAllErrors_def
      comDOMStatusQueryFn_def queryFn_def queryFn_finished_def reportError_def Let_def
      split: prod.splits sum.splits option.splits)

lemma sink_grows:
  "sink (snd (stop p s)) = sink s
   \<and> sink (snd (pause s)) = sink s
   \<and> sink (snd (resume p s)) = sink s
   \<and> sink (resolveError i s) = sink s
   \<and> sink (resolveAllErrors s) = sink s
   \<and> sink (snd (comDOMStatusQueryFn p s)) = sink s
   \<and> (\<exists>records. sink (snd (queryFn p s)) = sink s @ records)"
  by (simp add: stop_def pause_def resume_def resolveError_def resolveAllErrors_def
      comDOMStatusQueryFn_def queryFn_def queryFn_finished_def reportError_def Let_def
      sink_def split: prod.splits sum.splits option.splits)

subsection \<open>The poll step\<close>

text \<open>
  C3. A poll step invoked while the fetcher status is neither \<open>RUNNING\<close> nor \<open>DONE\<close>
  rejects and leaves the whole state as it was: the Sink, the poll interval, the error
  list and every other field.
\<close>

theorem queryFn_rejects_unchanged:
  "comDOMStatus s \<noteq> ComDOM_RUNNING \<and> comDOMStatus s \<noteq> ComDOM_DONE \<Longrightarrow>
     (\<exists>reason. fst (queryFn p s) = Inl reason) \<and> snd (queryFn p s) = s"
  by (simp add: queryFn_def)

theorem queryFn_rejects_unchanged_witness:
  "(comDOMStatus (exampleHook streamingWrapper loggingClient) \<noteq> ComDOM_RUNNING
      \<and> comDOMStatus (exampleHook streamingWrapper loggingClient) \<noteq> ComDOM_DONE)
   \<and> (\<exists>reason. fst (queryFn (exampleProps streamingWrapper loggingClient)
                      (exampleHook streamingWrapper loggingClient)) = Inl reason)
   \<and> snd (queryFn (exampleProps streamingWrapper loggingClient)
            (exampleHook streamingWrapper loggingClient))
       = exampleHook streamingWrapper loggingClient"
proof -
  have h: "comDOMStatus (exampleHook streamingWrapper loggingClient) \<noteq> ComDOM_RUNNING
      \<and> comDOMStatus (exampleHook streamingWrapper loggingClient) \<noteq> ComDOM_DONE"
    by (simp add: exampleHook_def useComDOM_def)
  show ?thesis
    using h queryFn_rejects_unchanged [OF h, of "exampleProps streamingWrapper loggingClient"]
    by simp
qed

text \<open>
  C1. In a poll step with fetcher status \<open>RUNNING\<close> or \<open>DONE\<close> whose call of \<open>next()\<close>
  returns, \<open>next()\<close> has been called (the worker is in the state \<open>next()\<close> left it in).
  If the response is empty or terminal, which in the code is
  \<open>batchResponse == null || !batchResponse.next\<close>, the step rejects, the poll interval is
  the rest interval, the status is \<open>DONE\<close> and the Sink is untouched. Otherwise, also for
  a batch without records and \<open>next = true\<close>, the step resolves to the Sink, the batch's
  records are appended to the Sink in order, the status is \<open>RUNNING\<close>, and neither the
  poll interval nor the error list changes.
\<close>

theorem queryFn_running_or_done:
  assumes "comDOMStatus s = ComDOM_RUNNING \<or> comDOMStatus s = ComDOM_DONE"
    and "wrapper_next (comDOMWrapper p) (worker s) = (Inr r, w)"
  shows "worker (snd (queryFn p s)) = w
     \<and> ((r = None \<or> (\<exists>b. r = Some b \<and> \<not> next' b)) \<longrightarrow>
            (\<exists>reason. fst (queryFn p s) = Inl reason)
          \<and> pollInterval (snd (queryFn p s)) = restInterval p
          \<and> status (snd (queryFn p s)) = DONE
          \<and> dataSink (snd (queryFn p s)) = dataSink s
          \<and> heap (snd (queryFn p s)) = heap s)
     \<and> (\<forall>b. r = Some b \<and> next' b \<longrightarrow>
            fst (queryFn p s) = Inr (dataSink s)
          \<and> dataSink (snd (queryFn p s)) = dataSink s
          \<and> sink (snd (queryFn p s)) = sink s @ data b
          \<and> status (snd (queryFn p s)) = RUNNING
          \<and> pollInterval (snd (queryFn p s)) = pollInterval s
          \<and> errors (snd (queryFn p s)) = errors s)"
  by (cases r) (auto simp: queryFn_next_returns[OF assms] queryFn_finished_def sink_def)

theorem queryFn_running_or_done_witness:
  "comDOMStatus (startedHook streamingWrapper loggingClient) = ComDOM_RUNNING
   \<and> wrapper_next streamingWrapper (worker (startedHook streamingWrapper loggingClient))
       = (Inr (Some \<lparr>data = [0], next' = True\<rparr>), 1)
   \<and> fst (queryFn (exampleProps streamingWrapper loggingClient)
            (startedHook streamingWrapper loggingClient)) = Inr 0
   \<and> sink (snd (queryFn (exampleProps streamingWrapper loggingClient)
            (startedHook streamingWrapper loggingClient))) = [0]
   \<and> status (snd (queryFn (exampleProps streamingWrapper loggingClient)
            (startedHook streamingWrapper loggingClient))) = RUNNING
   \<and> comDOMStatus (startedHook drainedWrapper loggingClient) = ComDOM_DONE
   \<and> wrapper_next drainedWrapper (worker (startedHook drainedWrapper loggingClient))
       = (Inr (Some \<lparr>data = [], next' = False\<rparr>), 0)
   \<and> status (snd (queryFn (exampleProps drainedWrapper loggingClient)
            (startedHook drainedWrapper loggingClient))) = DONE
   \<and> pollInterval (snd (queryFn (exampleProps drainedWrapper loggingClient)
            (startedHook drainedWrapper loggingClient))) = Infinity"
proof -
  let ?p = "exampleProps streamingWrapper loggingClient"
  let ?s = "startedHook streamingWrapper loggingClient"
  let ?p' = "exampleProps drainedWrapper loggingClient"
  let ?s' = "startedHook drainedWrapper loggingClient"
  have a: "comDOMStatus ?s = ComDOM_RUNNING \<or> comDOMStatus ?s = ComDOM_DONE"
    by (simp add: startedHook_streaming)
  have b: "wrapper_next (comDOMWrapper ?p) (worker ?s) = (Inr (Some \<lparr>data = [0], next' = True\<rparr>), 1)"
    by (simp add: startedHook_streaming) (simp add: example_defs)
  have c: "comDOMStatus ?s' = ComDOM_RUNNING \<or> comDOMStatus ?s' = ComDOM_DONE"
    by (simp add: startedHook_drained)
  have d: "wrapper_next (comDOMWrapper ?p') (worker ?s') = (Inr (Some \<lparr>data = [], next' = False\<rparr>), 0)"
    by (simp add: startedHook_drained) (simp add: example_defs)
  have e: "sink ?s = []" "dataSink ?s = 0"
    by (simp_all add: startedHook_streaming sink_def emptyStore_def)
  have f: "restInterval ?p' = Infinity" "comDOMWrapper ?p = streamingWrapper"
    "comDOMWrapper ?p' = drainedWrapper"
    by (simp_all add: exampleProps_def)
  show ?thesis
    using queryFn_running_or_done [OF a b] queryFn_running_or_done [OF c d] a b c d e f
    by (simp add: startedHook_streaming startedHook_drained)
qed

subsection \<open>start\<close>




text \<open>
  C10. The \<open>streamURL\<close> argument of \<open>start\<close> has no effect: a call with any argument
  returns the same value and leaves the same state (Sink, statuses, poll interval, error
  list, worker, cache) as a call with none.
\<close>

theorem start_ignores_streamURL:
  "start p streamURL s = start p None s"
  by (simp add: start_def)

subsection \<open>stop\<close>

text \<open>
  When \<open>destroy\<close> returns its success flag, \<open>stop\<close> returns the flag and calls
  \<open>invalidateQueries\<close> with the key of the status query. On success the status is
  \<open>STOPPED\<close> and the poll interval \<open>Infinity\<close>; on failure the status is \<open>ERROR\<close> and
  \<open>reportError\<close> has run.
\<close>

lemma stop_destroy_returns:
  assumes "wrapper_destroy (comDOMWrapper p) (worker s) = (Inr success, w)"
  shows "fst (stop p s) = Inr success
     \<and> worker (snd (stop p s)) = w
     \<and> queryCache (snd (stop p s)) =
         invalidateQueries (queryClient p) [hostname p, pathname p, ''comdom-status'']
           (queryCache s)
     \<and> (success \<longrightarrow>
           status (snd (stop p s)) = STOPPED
         \<and> pollInterval (snd (stop p s)) = Infinity
         \<and> errors (snd (stop p s)) = errors s)
     \<and> (\<not> success \<longrightarrow>
           status (snd (stop p s)) = ERROR
         \<and> errors (snd (stop p s)) =
             render_errors p @
               [\<lparr>id' = errorId s + 1, message = JsString ''Error stopping ComDOM'',
                  cause = JsString ''Error Destroying ComDOM''\<rparr>])"
  using assms by (simp add: stop_def Let_def reportError_def queryKey_def)

text \<open>
  C4. The claim gives \<open>stop\<close> two outcomes, both ending with the cached status
  invalidated. A \<open>destroy\<close> that fails by throwing gets neither: on a started hook whose
  cache has seen no call, \<open>stop\<close> does not return \<open>false\<close>, the error list is still empty,
  the status is not \<open>ERROR\<close>, and the cache has still seen no call, so the cached status
  is not invalidated.
\<close>

theorem stop_throwing_destroy_skips_failure_handling:
  "wrapper_destroy crashedWrapper (worker (startedHook crashedWrapper loggingClient))
     = (Inl (JsError ''Worker already terminated'' None), 0)
   \<and> queryCache (startedHook crashedWrapper loggingClient) = []
   \<and> fst (stop (exampleProps crashedWrapper loggingClient)
            (startedHook crashedWrapper loggingClient)) \<noteq> Inr False
   \<and> fst (stop (exampleProps crashedWrapper loggingClient)
            (startedHook crashedWrapper loggingClient)) \<noteq> Inr True
   \<and> errors (snd (stop (exampleProps crashedWrapper loggingClient)
            (startedHook crashedWrapper loggingClient))) = []
   \<and> status (snd (stop (exampleProps crashedWrapper loggingClient)
            (startedHook crashedWrapper loggingClient))) \<noteq> ERROR
   \<and> queryCache (snd (stop (exampleProps crashedWrapper loggingClient)
            (startedHook crashedWrapper loggingClient))) = []"
  by (simp add: example_defs start_def stop_def)

text \<open>
  C8. \<open>stop\<close> calls \<open>destroy\<close> outside any \<open>try\<close> block. With a wrapper whose \<open>destroy\<close>
  throws, \<open>stop\<close> does not return a boolean: the exception leaves \<open>stop\<close>, no error is
  recorded, the status is not changed and the cache is not invalidated.
\<close>

theorem stop_propagates_destroy_exception:
  "stop (exampleProps crashedWrapper loggingClient) (startedHook crashedWrapper loggingClient)
     = (Inl (JsError ''Worker already terminated'' None),
        startedHook crashedWrapper loggingClient)"
  by (simp add: example_defs start_def stop_def)

subsection \<open>pause\<close>

text \<open>
  C5. \<open>pause\<close> always sets the poll interval to \<open>Infinity\<close>. When the status is \<open>RUNNING\<close>
  it sets the status to \<open>PAUSED\<close> and returns \<open>true\<close>; otherwise it returns \<open>false\<close>,
  records no error and leaves the status as it was.
\<close>

theorem pause_effects:
  "pollInterval (snd (pause s)) = Infinity
   \<and> (status s = RUNNING \<longrightarrow> fst (pause s) \<and> status (snd (pause s)) = PAUSED)
   \<and> (status s \<noteq> RUNNING \<longrightarrow>
         \<not> fst (pause s) \<and> errors (snd (pause s)) = errors s
       \<and> errorId (snd (pause s)) = errorId s
       \<and> status (snd (pause s)) = status s)"
  by (simp add: pause_def Let_def)

theorem pause_effects_witness:
  "status (exampleHook streamingWrapper loggingClient) = STOPPED
   \<and> \<not> fst (pause (exampleHook streamingWrapper loggingClient))
   \<and> status (snd (pause (exampleHook streamingWrapper loggingClient))) = STOPPED
   \<and> errors (snd (pause (exampleHook streamingWrapper loggingClient))) = []
   \<and> status (snd (resume (exampleProps streamingWrapper loggingClient)
               (exampleHook streamingWrapper loggingClient))) = RUNNING
   \<and> fst (pause (snd (resume (exampleProps streamingWrapper loggingClient)
               (exampleHook streamingWrapper loggingClient))))
   \<and> status (snd (pause (snd (resume (exampleProps streamingWrapper loggingClient)
               (exampleHook streamingWrapper loggingClient))))) = PAUSED
   \<and> pollInterval (snd (pause (snd (resume (exampleProps streamingWrapper loggingClient)
               (exampleHook streamingWrapper loggingClient))))) = Infinity"
proof -
  let ?s = "exampleHook streamingWrapper loggingClient"
  let ?r = "snd (resume (exampleProps streamingWrapper loggingClient) ?s)"
  have a: "status ?s = STOPPED" "errors ?s = []"
    by (simp_all add: example_defs)
  have b: "status ?r = RUNNING"
    by (simp add: resume_def)
  show ?thesis
    using pause_effects [of ?s] pause_effects [of ?r] a b by simp
qed

subsection \<open>Failures and the error list\<close>




text \<open>
  C7. Two failing calls of \<open>start\<close> through the function object of one render: the first
  leaves the record with id 1 in the list. The second sees the \<open>errors\<close> of its render,
  still the empty list, and writes that list plus the record with id 2: the list is
  overwritten, not appended to, and record 1 is lost. (From the render that shows record
  1 the same call appends: the list holds the ids 1 and 2.)
\<close>

theorem second_failure_overwrites_error_list:
  "render_errors (exampleProps unreachableWrapper loggingClient) = []
   \<and> \<not> fst (start (exampleProps unreachableWrapper loggingClient) None
            (exampleHook unreachableWrapper loggingClient))
   \<and> map id' (errors (startedHook unreachableWrapper loggingClient)) = [1]
   \<and> \<not> fst (start (exampleProps unreachableWrapper loggingClient) None
            (startedHook unreachableWrapper loggingClient))
   \<and> map id' (errors (snd (start (exampleProps unreachableWrapper loggingClient) None
            (startedHook unreachableWrapper loggingClient)))) = [2]
   \<and> map id' (errors (snd (start
            (exampleProps unreachableWrapper loggingClient
               \<lparr>render_errors := errors (startedHook unreachableWrapper loggingClient)\<rparr>)
            None (startedHook unreachableWrapper loggingClient)))) = [1, 2]"
  by (simp add: startedHook_unreachable)
     (simp add: example_defs start_def start_catch_def reportError_def)

subsection \<open>clean\<close>

text \<open>
  C9. \<open>clean\<close> assigns \<open>dataSink.current = initialData\<close>, and the poll step appends to the
  array \<open>dataSink.current\<close> in place. When the hook is given the same \<open>initialData\<close>
  array throughout, that array is the Sink after \<open>start\<close>, the poll step appends the
  batch to it, and \<open>clean\<close> then assigns the Sink the array it already is: the Sink keeps
  the record 0 of the batch instead of going back to the empty initial content.
\<close>

theorem clean_keeps_appended_records:
  "sink (exampleHook streamingWrapper loggingClient) = []
   \<and> sink (snd (queryFn (exampleProps streamingWrapper loggingClient)
                  (startedHook streamingWrapper loggingClient))) = [0]
   \<and> fst (clean (exampleProps streamingWrapper loggingClient)
            (snd (queryFn (exampleProps streamingWrapper loggingClient)
                    (startedHook streamingWrapper loggingClient))))
   \<and> sink (snd (clean (exampleProps streamingWrapper loggingClient)
            (snd (queryFn (exampleProps streamingWrapper loggingClient)
                    (startedHook streamingWrapper loggingClient))))) = [0]"
  by (simp add: startedHook_streaming)
     (simp add: example_defs queryFn_def clean_def sink_def queryKey_def)

end
